theory Spec2Isabelle
  imports Main
begin

section \<open>Syntax trees\<close>

text \<open>
  The refactorings consume the syntax tree of the parser: a tagged union of node kinds,
  each with an optional source location \<open>loc\<close>. The location annotation is the type
  parameter \<open>'l\<close>, so that erasing it (\<open>map_node\<close>) gives the shape of a node.
  Only the node kinds the modelled functions distinguish have a constructor of their own;
  \<open>Other\<close> stands for every remaining kind: its type name, its location, its fields
  that are no nodes (the name of each, with the text of its value, or \<open>None\<close> for a
  field that is \<open>null\<close>), and its children in visiting order, each with the field it
  stands in and, in a list field, its index. The value of a numeric literal is kept as
  the text that a template literal renders it to.
\<close>

datatype position = Position (line: int) (column: int)

datatype sourceLocation = SourceLocation (loc_start: position) (loc_end: position)

datatype 'l node =
    Identifier 'l string
  | NumericLiteral 'l string
  | StringLiteral 'l string
  | ThisExpression 'l
  | MemberExpression 'l "'l node" "'l node" bool
  | UnaryExpression 'l string "'l node"
  | AssignmentExpression 'l string "'l node" "'l node"
  | CallExpression 'l "'l node" "'l node list"
  | ObjectProperty 'l "'l node" "'l node" bool bool
  | RestElement 'l "'l node"
  | ObjectPattern 'l "'l node list"
  | ArrayPattern 'l "'l node option list"
  | VariableDeclarator 'l "'l node" "'l node option"
  | VariableDeclaration 'l string "'l node list"
  | FunctionDeclaration 'l "'l node" "'l node list" "'l node"
  | BlockStatement 'l "'l node list"
  | ExpressionStatement 'l "'l node"
  | ReturnStatement 'l "'l node option"
  | IfStatement 'l "'l node" "'l node" "'l node option"
  | Program 'l "'l node list"
  | TSTypeReference 'l "'l node"
  | TSTypeAliasDeclaration 'l "'l node" "'l node"
  | Other string 'l "(string \<times> string option) list" "(string \<times> nat option \<times> 'l node) list"

type_synonym ast = "sourceLocation option node"

fun node_loc :: "'l node \<Rightarrow> 'l" where
  "node_loc (Identifier l _) = l"
| "node_loc (NumericLiteral l _) = l"
| "node_loc (StringLiteral l _) = l"
| "node_loc (ThisExpression l) = l"
| "node_loc (MemberExpression l _ _ _) = l"
| "node_loc (UnaryExpression l _ _) = l"
| "node_loc (AssignmentExpression l _ _ _) = l"
| "node_loc (CallExpression l _ _) = l"
| "node_loc (ObjectProperty l _ _ _ _) = l"
| "node_loc (RestElement l _) = l"
| "node_loc (ObjectPattern l _) = l"
| "node_loc (ArrayPattern l _) = l"
| "node_loc (VariableDeclarator l _ _) = l"
| "node_loc (VariableDeclaration l _ _) = l"
| "node_loc (FunctionDeclaration l _ _ _) = l"
| "node_loc (BlockStatement l _) = l"
| "node_loc (ExpressionStatement l _) = l"
| "node_loc (ReturnStatement l _) = l"
| "node_loc (IfStatement l _ _ _) = l"
| "node_loc (Program l _) = l"
| "node_loc (TSTypeReference l _) = l"
| "node_loc (TSTypeAliasDeclaration l _ _) = l"
| "node_loc (Other _ l _ _) = l"

subsection \<open>Node tests\<close>

definition isIdentifier :: "'l node \<Rightarrow> bool" where
  "isIdentifier n = (case n of Identifier _ _ \<Rightarrow> True | _ \<Rightarrow> False)"

definition isMemberExpression :: "'l node \<Rightarrow> bool" where
  "isMemberExpression n = (case n of MemberExpression _ _ _ _ \<Rightarrow> True | _ \<Rightarrow> False)"

definition isUnaryExpression :: "'l node \<Rightarrow> bool" where
  "isUnaryExpression n = (case n of UnaryExpression _ _ _ \<Rightarrow> True | _ \<Rightarrow> False)"

definition isObjectProperty :: "'l node \<Rightarrow> bool" where
  "isObjectProperty n = (case n of ObjectProperty _ _ _ _ _ \<Rightarrow> True | _ \<Rightarrow> False)"

definition isRestElement :: "'l node \<Rightarrow> bool" where
  "isRestElement n = (case n of RestElement _ _ \<Rightarrow> True | _ \<Rightarrow> False)"

definition isObjectPattern :: "'l node \<Rightarrow> bool" where
  "isObjectPattern n = (case n of ObjectPattern _ _ \<Rightarrow> True | _ \<Rightarrow> False)"

definition isIfStatement :: "'l node \<Rightarrow> bool" where
  "isIfStatement n = (case n of IfStatement _ _ _ _ \<Rightarrow> True | _ \<Rightarrow> False)"

text \<open>
  Modelled from the spec: the helpers \<open>isSelectableNode\<close>, \<open>isSelectableIdentifier\<close>,
  \<open>isSelectableObjectProperty\<close> and \<open>areEqual\<close> of the \<open>ast\<close> module are not part of the
  sources at hand. A node is selectable when it has a source location; a selectable
  object property also has a selectable key and value (the code reads \<open>property.loc\<close>,
  \<open>property.key.loc\<close> and \<open>property.value.loc\<close> of one without a check). \<open>areEqual\<close> is
  the "structural-equality test between two nodes" (for identifiers: the same name):
  equality of the two nodes with their locations erased.
\<close>

definition isSelectableNode :: "ast \<Rightarrow> bool" where
  "isSelectableNode n = (node_loc n \<noteq> None)"

definition isSelectableIdentifier :: "ast \<Rightarrow> bool" where
  "isSelectableIdentifier n = (isIdentifier n \<and> isSelectableNode n)"

definition isSelectableObjectProperty :: "ast \<Rightarrow> bool" where
  "isSelectableObjectProperty n =
     (case n of
        ObjectProperty l k v _ _ \<Rightarrow> l \<noteq> None \<and> isSelectableNode k \<and> isSelectableNode v
      | _ \<Rightarrow> False)"

definition areEqual :: "'l node \<Rightarrow> 'l node \<Rightarrow> bool" where
  "areEqual a b = (map_node (\<lambda>_. ()) a = map_node (\<lambda>_. ()) b)"

section \<open>Selections\<close>

text \<open>
  Modelled from the spec: the class \<open>Selection\<close> of the editor is not part of the sources
  at hand. It is the "selection/range abstraction" of the external interfaces: a start
  and an end position (line and character, counted from 0), with the "containment test
  (does this range lie inside a node's location)", the "range-extension operations
  (extend this range's start/end to another range's start/end, extend to start-of-line /
  start-of-next-line)" and the "conversion from a syntax node's location to a range
  value" (the parser counts lines from 1).
\<close>

datatype selection = Selection (sel_start: position) (sel_end: position)

definition cursorAt :: "int \<Rightarrow> int \<Rightarrow> selection" where
  "cursorAt l c = Selection (Position l c) (Position l c)"

definition fromAST :: "sourceLocation \<Rightarrow> selection" where
  "fromAST l =
     Selection (Position (line (loc_start l) - 1) (column (loc_start l)))
               (Position (line (loc_end l) - 1) (column (loc_end l)))"

definition isSameOrBefore :: "position \<Rightarrow> position \<Rightarrow> bool" where
  "isSameOrBefore p q = (line p < line q \<or> (line p = line q \<and> column p \<le> column q))"

definition isInside :: "selection \<Rightarrow> selection \<Rightarrow> bool" where
  "isInside s t = (isSameOrBefore (sel_start t) (sel_start s) \<and> isSameOrBefore (sel_end s) (sel_end t))"

definition isInsideNode :: "selection \<Rightarrow> ast \<Rightarrow> bool" where
  "isInsideNode s n = (case node_loc n of None \<Rightarrow> False | Some l \<Rightarrow> isInside s (fromAST l))"

definition extendStartToStartOf :: "selection \<Rightarrow> selection \<Rightarrow> selection" where
  "extendStartToStartOf s t = Selection (sel_start t) (sel_end s)"

definition extendStartToEndOf :: "selection \<Rightarrow> selection \<Rightarrow> selection" where
  "extendStartToEndOf s t = Selection (sel_end t) (sel_end s)"

definition extendEndToStartOf :: "selection \<Rightarrow> selection \<Rightarrow> selection" where
  "extendEndToStartOf s t = Selection (sel_start s) (sel_start t)"

definition extendToStartOfLine :: "selection \<Rightarrow> selection" where
  "extendToStartOfLine s = Selection (Position (line (sel_start s)) 0) (sel_end s)"

definition extendToStartOfNextLine :: "selection \<Rightarrow> selection" where
  "extendToStartOfNextLine s = Selection (sel_start s) (Position (line (sel_end s) + 1) 0)"

text \<open>
  The range of a node whose type the code has narrowed to a selectable one (\<open>node.loc\<close>
  read without a check); it is only applied to such nodes.
\<close>

definition selectionOf :: "ast \<Rightarrow> selection" where
  "selectionOf n = fromAST (the (node_loc n))"

section \<open>Traversal\<close>

text \<open>
  \<open>traverseNode\<close> is the parser library's pre-order walk: it calls \<open>enter\<close> on a node with
  the chain of its ancestors, outermost first, each ancestor being the parent node, the
  field of the parent the walk went through and, for a list field, the index. Then it
  visits the children field by field in the order of the node kind's visitor keys,
  skipping absent children. \<open>edges\<close> lists the children of a node with their field and
  index; \<open>traverse\<close> returns the calls of \<open>enter\<close> in order.
\<close>

datatype 'l ancestor = Ancestor (anc_node: "'l node") (anc_key: string) (anc_index: "nat option")

definition single :: "string \<Rightarrow> 'l node \<Rightarrow> (string \<times> nat option \<times> 'l node) list" where
  "single key x = [(key, None, x)]"

definition optional :: "string \<Rightarrow> 'l node option \<Rightarrow> (string \<times> nat option \<times> 'l node) list" where
  "optional key x = (case x of None \<Rightarrow> [] | Some y \<Rightarrow> [(key, None, y)])"

definition indexed :: "string \<Rightarrow> 'l node list \<Rightarrow> (string \<times> nat option \<times> 'l node) list" where
  "indexed key xs = map (\<lambda>(i, x). (key, Some i, x)) (enumerate 0 xs)"

definition indexedOptional :: "string \<Rightarrow> 'l node option list \<Rightarrow> (string \<times> nat option \<times> 'l node) list" where
  "indexedOptional key xs =
     List.map_filter (\<lambda>(i, x). map_option (\<lambda>y. (key, Some i, y)) x) (enumerate 0 xs)"

fun edges :: "'l node \<Rightarrow> (string \<times> nat option \<times> 'l node) list" where
  "edges (Identifier _ _) = []"
| "edges (NumericLiteral _ _) = []"
| "edges (StringLiteral _ _) = []"
| "edges (ThisExpression _) = []"
| "edges (MemberExpression _ obj prop _) = single ''object'' obj @ single ''property'' prop"
| "edges (UnaryExpression _ _ arg) = single ''argument'' arg"
| "edges (AssignmentExpression _ _ l r) = single ''left'' l @ single ''right'' r"
| "edges (CallExpression _ callee args) = single ''callee'' callee @ indexed ''arguments'' args"
| "edges (ObjectProperty _ k v _ _) = single ''key'' k @ single ''value'' v"
| "edges (RestElement _ arg) = single ''argument'' arg"
| "edges (ObjectPattern _ props) = indexed ''properties'' props"
| "edges (ArrayPattern _ elems) = indexedOptional ''elements'' elems"
| "edges (VariableDeclarator _ i init) = single ''id'' i @ optional ''init'' init"
| "edges (VariableDeclaration _ _ decls) = indexed ''declarations'' decls"
| "edges (FunctionDeclaration _ i params body) =
     single ''id'' i @ indexed ''params'' params @ single ''body'' body"
| "edges (BlockStatement _ body) = indexed ''body'' body"
| "edges (ExpressionStatement _ e) = single ''expression'' e"
| "edges (ReturnStatement _ arg) = optional ''argument'' arg"
| "edges (IfStatement _ test cons alt) =
     single ''test'' test @ single ''consequent'' cons @ optional ''alternate'' alt"
| "edges (Program _ body) = indexed ''body'' body"
| "edges (TSTypeReference _ name) = single ''typeName'' name"
| "edges (TSTypeAliasDeclaration _ i ty) = single ''id'' i @ single ''typeAnnotation'' ty"
| "edges (Other _ _ _ children) = children"

lemma indexed_set: "(k, i, c) \<in> set (indexed key xs) \<Longrightarrow> c \<in> set xs"
  by (auto simp: indexed_def in_set_enumerate_eq)

lemma indexedOptional_set: "(k, i, c) \<in> set (indexedOptional key xs) \<Longrightarrow> Some c \<in> set xs"
  by (auto simp: indexedOptional_def List.map_filter_def in_set_enumerate_eq)
     (metis nth_mem)

lemma size_list_member: "x \<in> set xs \<Longrightarrow> f x < Suc (size_list f xs)"
  by (induction xs) auto

lemma size_edge_member:
  assumes "(k, i, c) \<in> set es"
  shows "size c < Suc (size_list (size_prod (\<lambda>_. 0) (size_prod (\<lambda>_. 0) size)) es)"
proof -
  have "size_prod (\<lambda>_. 0) (size_prod (\<lambda>_. 0) size) (k, i, c)
          < Suc (size_list (size_prod (\<lambda>_. 0) (size_prod (\<lambda>_. 0) size)) es)"
    using assms by (rule size_list_member)
  then show ?thesis by simp
qed

lemma edges_size: "(k, i, c) \<in> set (edges n) \<Longrightarrow> size c < size n"
  by (cases n)
     (auto simp: single_def optional_def split: option.splits
           dest!: indexed_set indexedOptional_set
           dest: size_list_member [where f = size]
                 size_list_member [where f = "size_option size"]
                 size_edge_member)

function traverse :: "'l ancestor list \<Rightarrow> 'l node \<Rightarrow> ('l node \<times> 'l ancestor list) list" where
  "traverse ancestors n =
     (n, ancestors) #
     concat (map (\<lambda>(key, index, child). traverse (ancestors @ [Ancestor n key index]) child)
                 (edges n))"
  by pat_completeness auto
termination
  by (relation "measure (\<lambda>(a, n). size n)") (auto dest: edges_size)

declare traverse.simps [simp del]

section \<open>Reference resolver\<close>

datatype identifierToReplace =
  IdentifierToReplace (itr_loc: sourceLocation) (isInUnaryExpression: bool)
    (shorthandKey: "string option")

text \<open>
  Modelled from the spec: \<open>isShadowIn\<close> of the \<open>ast\<close> module is not part of the sources at
  hand. An occurrence is shadowed when "it lies within a more deeply nested scope that
  redeclares the same name before this occurrence": one of its ancestors, all entered
  before the occurrence, is a scope that declares the name again. The scopes are
  \<^item> the functions (declarations, expressions, arrows and methods), which declare their
    parameters and what the \<open>var\<close> declarations in them, outside the functions nested in
    them, declare; and the function and class expressions, which declare their own name;
  \<^item> the blocks and the switch cases, which declare what the variable, function and class
    declarations among their statements declare;
  \<^item> the catch clauses, which declare their parameter;
  \<^item> the for loops, which declare what the declaration in their head declares.
  A parameter or a declarator declares the identifiers of its pattern (an identifier, an
  object or array pattern, a rest element, a pattern with a default), but for the keys of
  properties, the default values and the type annotations. The identifier of the binding
  being inlined is no redeclaration of it.
\<close>

definition bindsName :: "ast \<Rightarrow> ast \<Rightarrow> bool" where
  "bindsName ident pattern =
     list_ex (\<lambda>(n, ancestors).
                areEqual ident n \<and> n \<noteq> ident \<and>
                \<not> list_ex (\<lambda>a. anc_key a \<in> set [''key'', ''right'', ''typeAnnotation''])
                     ancestors)
       (traverse [] pattern)"

definition childrenAt ::
  "string list \<Rightarrow> (string \<times> nat option \<times> 'l node) list \<Rightarrow> 'l node list" where
  "childrenAt keys children =
     map (\<lambda>(key, index, child). child) (filter (\<lambda>(key, index, child). key \<in> set keys) children)"

definition declaresName :: "ast \<Rightarrow> ast \<Rightarrow> bool" where
  "declaresName ident statement =
     (case statement of
        VariableDeclaration _ _ declarations \<Rightarrow>
          list_ex (\<lambda>d. case d of VariableDeclarator _ i _ \<Rightarrow> bindsName ident i | _ \<Rightarrow> False)
            declarations
      | FunctionDeclaration _ name _ _ \<Rightarrow> areEqual ident name \<and> name \<noteq> ident
      | Other kind _ _ children \<Rightarrow>
          kind = ''ClassDeclaration'' \<and>
          list_ex (\<lambda>c. areEqual ident c \<and> c \<noteq> ident) (childrenAt [''id''] children)
      | _ \<Rightarrow> False)"

definition functionKinds :: "string list" where
  "functionKinds =
     [''FunctionExpression'', ''ArrowFunctionExpression'', ''ObjectMethod'', ''ClassMethod'',
      ''ClassPrivateMethod'']"

definition isFunctionScope :: "'l node \<Rightarrow> bool" where
  "isFunctionScope n =
     (case n of
        FunctionDeclaration _ _ _ _ \<Rightarrow> True
      | Other kind _ _ _ \<Rightarrow> kind \<in> set functionKinds
      | _ \<Rightarrow> False)"

definition hoistsVar :: "ast \<Rightarrow> ast \<Rightarrow> bool" where
  "hoistsVar ident f =
     list_ex (\<lambda>(n, ancestors).
                (case n of
                   VariableDeclaration _ kind _ \<Rightarrow> kind = ''var'' \<and> declaresName ident n
                 | _ \<Rightarrow> False) \<and>
                \<not> list_ex (\<lambda>a. isFunctionScope (anc_node a)) (tl ancestors))
       (traverse [] f)"

definition redeclares :: "ast \<Rightarrow> ast \<Rightarrow> bool" where
  "redeclares ident n =
     (case n of
        FunctionDeclaration _ _ params _ \<Rightarrow>
          list_ex (bindsName ident) params \<or> hoistsVar ident n
      | BlockStatement _ body \<Rightarrow> list_ex (declaresName ident) body
      | Other kind _ _ children \<Rightarrow>
          (kind \<in> set functionKinds \<and>
             (list_ex (bindsName ident) (childrenAt [''params''] children) \<or>
              hoistsVar ident n)) \<or>
          (kind \<in> set [''FunctionExpression'', ''ClassExpression''] \<and>
             list_ex (\<lambda>c. areEqual ident c \<and> c \<noteq> ident) (childrenAt [''id''] children)) \<or>
          (kind = ''CatchClause'' \<and>
             list_ex (bindsName ident) (childrenAt [''param''] children)) \<or>
          (kind \<in> set [''ForStatement'', ''ForInStatement'', ''ForOfStatement''] \<and>
             list_ex (declaresName ident) (childrenAt [''init'', ''left''] children)) \<or>
          (kind = ''SwitchCase'' \<and>
             list_ex (declaresName ident) (childrenAt [''consequent''] children))
      | _ \<Rightarrow> False)"

definition isShadowIn :: "ast \<Rightarrow> sourceLocation option ancestor list \<Rightarrow> bool" where
  "isShadowIn ident ancestors = list_ex (\<lambda>a. redeclares ident (anc_node a)) ancestors"

text \<open>\<open>last\<close> of the array helpers: the last element, if there is one.\<close>

definition lastOf :: "'a list \<Rightarrow> 'a option" where
  "lastOf xs = (case xs of [] \<Rightarrow> None | _ \<Rightarrow> Some (last xs))"

text \<open>
  The source applies \<open>isFunctionDeclaration\<close> to the ancestor entry \<open>parent\<close> itself, not to
  \<open>parent.node\<close>; an entry (node, key, index) has no node type, so the test is false.
\<close>

definition entryIsFunctionDeclaration :: "'l ancestor \<Rightarrow> bool" where
  "entryIsFunctionDeclaration parent = False"

definition isShorthand :: "'l node \<Rightarrow> bool" where
  "isShorthand n = (case n of ObjectProperty _ _ _ _ shorthand \<Rightarrow> shorthand | _ \<Rightarrow> False)"

definition identifierName :: "'l node \<Rightarrow> string option" where
  "identifierName n = (case n of Identifier _ name \<Rightarrow> Some name | _ \<Rightarrow> None)"

text \<open>
  The \<open>enter\<close> callback of \<open>computeIdentifiersToReplace\<close>: what one visited node adds to
  \<open>identifiersToReplace\<close>, if anything. A child is the very object \<open>parent.node.key\<close>
  (or \<open>parent.node.property\<close>) when the walk reached it through that field.
\<close>

definition enterIdentifier ::
  "ast \<Rightarrow> ast \<times> sourceLocation option ancestor list \<Rightarrow> identifierToReplace option" where
  "enterIdentifier ident = (\<lambda>(node, ancestors).
     case node_loc node of
       None \<Rightarrow> None
     | Some loc \<Rightarrow>
         if \<not> areEqual ident node then None
         else if isShadowIn ident ancestors then None
         else if isInsideNode (fromAST loc) ident then None
         else (case lastOf ancestors of
                 None \<Rightarrow> None
               | Some parent \<Rightarrow>
                   if entryIsFunctionDeclaration parent then None
                   else if isObjectProperty (anc_node parent) \<and> anc_key parent = ''key''
                     then None
                   else if isMemberExpression (anc_node parent) \<and> anc_key parent = ''property''
                     then None
                   else Some (IdentifierToReplace loc
                          (isUnaryExpression (anc_node parent))
                          (if isObjectProperty (anc_node parent) \<and> isShorthand (anc_node parent)
                           then identifierName node else None))))"

definition computeIdentifiersToReplace :: "ast \<Rightarrow> ast \<Rightarrow> identifierToReplace list" where
  "computeIdentifiersToReplace ident scope =
     List.map_filter (enterIdentifier ident) (traverse [] scope)"

text \<open>The \<open>enter\<close> callback of the getter \<open>isRedeclared\<close>, and the getter on a leaf.\<close>

definition isAssignmentTo :: "'l node \<Rightarrow> 'l node \<Rightarrow> bool" where
  "isAssignmentTo ident node =
     (case node of AssignmentExpression _ _ left _ \<Rightarrow> areEqual ident left | _ \<Rightarrow> False)"

definition isRedeclaredIn :: "ast \<Rightarrow> ast \<Rightarrow> bool" where
  "isRedeclaredIn ident scope =
     list_ex (\<lambda>(node, ancestors). isAssignmentTo ident node) (traverse [] scope)"

section \<open>Inlinable code\<close>

text \<open>
  The classes implementing \<open>InlinableCode\<close> as one datatype: the two leaves with their
  fields (for the identifier: \<open>id\<close>, \<open>scope\<close>, \<open>valueSelection\<close>, \<open>identifiersToReplace\<close>;
  for the type alias: the declaration \<open>path.node\<close>, \<open>path.parent\<close>, \<open>codeToRemoveSelection\<close>,
  \<open>valueSelection\<close>, \<open>refToReplaceLocs\<close>), and the composites with their child first.
\<close>

datatype inlinable =
    InlinableIdentifier ast ast selection "identifierToReplace list"
  | InlinableTSTypeAlias ast ast selection selection "sourceLocation list"
  | SingleDeclaration inlinable
  | MultipleDeclarations inlinable ast "ast option"
  | InlinableObjectPattern inlinable string ast bool "ast option" "ast option"
  | InlinableArrayPattern inlinable nat ast "ast option" "ast option"
  | InlinableTopLevelPattern inlinable sourceLocation

subsection \<open>Constructors\<close>

definition newInlinableIdentifier :: "ast \<Rightarrow> ast \<Rightarrow> sourceLocation \<Rightarrow> inlinable" where
  "newInlinableIdentifier ident scope valueLoc =
     InlinableIdentifier ident scope (fromAST valueLoc) (computeIdentifiersToReplace ident scope)"

definition aliasId :: "'l node \<Rightarrow> 'l node option" where
  "aliasId n = (case n of TSTypeAliasDeclaration _ i _ \<Rightarrow> Some i | _ \<Rightarrow> None)"

definition enterTSTypeReference :: "ast \<Rightarrow> ast \<times> sourceLocation option ancestor list \<Rightarrow> sourceLocation option" where
  "enterTSTypeReference alias = (\<lambda>(node, ancestors).
     case node of
       TSTypeReference (Some loc) typeName \<Rightarrow>
         (case aliasId alias of
            Some i \<Rightarrow> if areEqual i typeName then Some loc else None
          | None \<Rightarrow> None)
     | _ \<Rightarrow> None)"

text \<open>
  The constructor is given the path of a selectable type alias declaration: the
  declaration, whose location is \<open>declLoc\<close>, and its parent. The path's own traversal
  visits the descendants of the parent, not the parent.
\<close>

definition newInlinableTSTypeAlias ::
  "ast \<Rightarrow> sourceLocation \<Rightarrow> ast \<Rightarrow> sourceLocation \<Rightarrow> inlinable" where
  "newInlinableTSTypeAlias alias declLoc parent valueLoc =
     InlinableTSTypeAlias alias parent (fromAST declLoc) (fromAST valueLoc)
       (List.map_filter (enterTSTypeReference alias) (tl (traverse [] parent)))"

definition selectableObjectProperty :: "ast option \<Rightarrow> ast option" where
  "selectableObjectProperty n =
     (case n of Some p \<Rightarrow> if isSelectableObjectProperty p then Some p else None | None \<Rightarrow> None)"

definition selectableNode :: "ast option \<Rightarrow> ast option" where
  "selectableNode n =
     (case n of Some p \<Rightarrow> if isSelectableNode p then Some p else None | None \<Rightarrow> None)"

definition newInlinableObjectPattern ::
  "inlinable \<Rightarrow> string \<Rightarrow> ast \<Rightarrow> bool \<Rightarrow> ast option \<Rightarrow> ast option \<Rightarrow> inlinable" where
  "newInlinableObjectPattern child initName property hasRestSibling previous next =
     InlinableObjectPattern child initName property hasRestSibling
       (selectableObjectProperty previous) (selectableObjectProperty next)"

definition newInlinableArrayPattern ::
  "inlinable \<Rightarrow> nat \<Rightarrow> ast \<Rightarrow> ast option \<Rightarrow> ast option \<Rightarrow> inlinable" where
  "newInlinableArrayPattern child index element previous next =
     InlinableArrayPattern child index element (selectableNode previous) (selectableNode next)"

subsection \<open>The derived attributes\<close>

fun isRedeclared :: "inlinable \<Rightarrow> bool" where
  "isRedeclared (InlinableIdentifier ident scope _ _) = isRedeclaredIn ident scope"
| "isRedeclared (InlinableTSTypeAlias _ _ _ _ _) = False"
| "isRedeclared (SingleDeclaration child) = isRedeclared child"
| "isRedeclared (MultipleDeclarations child _ _) = isRedeclared child"
| "isRedeclared (InlinableObjectPattern child _ _ _ _ _) = isRedeclared child"
| "isRedeclared (InlinableArrayPattern child _ _ _ _) = isRedeclared child"
| "isRedeclared (InlinableTopLevelPattern child _) = isRedeclared child"

text \<open>
  \<open>findExportedIdNames\<close>, the export-name lookup of a scope, is an external collaborator:
  a parameter of \<open>isExported\<close>. The identifier of a leaf has a name.
\<close>

definition includesName :: "string list \<Rightarrow> string option \<Rightarrow> bool" where
  "includesName names name = (case name of Some s \<Rightarrow> s \<in> set names | None \<Rightarrow> False)"

fun isExported :: "(ast \<Rightarrow> string list) \<Rightarrow> inlinable \<Rightarrow> bool" where
  "isExported findExportedIdNames (InlinableIdentifier ident scope _ _) =
     includesName (findExportedIdNames scope) (identifierName ident)"
| "isExported findExportedIdNames (InlinableTSTypeAlias alias parent _ _ _) =
     includesName (findExportedIdNames parent) (Option.bind (aliasId alias) identifierName)"
| "isExported f (SingleDeclaration child) = isExported f child"
| "isExported f (MultipleDeclarations child _ _) = isExported f child"
| "isExported f (InlinableObjectPattern child _ _ _ _ _) = isExported f child"
| "isExported f (InlinableArrayPattern child _ _ _ _) = isExported f child"
| "isExported f (InlinableTopLevelPattern child _) = isExported f child"

fun hasIdentifiersToUpdate :: "inlinable \<Rightarrow> bool" where
  "hasIdentifiersToUpdate (InlinableIdentifier _ _ _ identifiersToReplace) =
     (length identifiersToReplace > 0)"
| "hasIdentifiersToUpdate (InlinableTSTypeAlias _ _ _ _ refToReplaceLocs) =
     (length refToReplaceLocs > 0)"
| "hasIdentifiersToUpdate (SingleDeclaration child) = hasIdentifiersToUpdate child"
| "hasIdentifiersToUpdate (MultipleDeclarations child _ _) = hasIdentifiersToUpdate child"
| "hasIdentifiersToUpdate (InlinableObjectPattern child _ _ _ _ _) = hasIdentifiersToUpdate child"
| "hasIdentifiersToUpdate (InlinableArrayPattern child _ _ _ _) = hasIdentifiersToUpdate child"
| "hasIdentifiersToUpdate (InlinableTopLevelPattern child _) = hasIdentifiersToUpdate child"

fun valueSelection :: "inlinable \<Rightarrow> selection" where
  "valueSelection (InlinableIdentifier _ _ v _) = v"
| "valueSelection (InlinableTSTypeAlias _ _ _ v _) = v"
| "valueSelection (SingleDeclaration child) = valueSelection child"
| "valueSelection (MultipleDeclarations child _ _) = valueSelection child"
| "valueSelection (InlinableObjectPattern child _ _ _ _ _) = valueSelection child"
| "valueSelection (InlinableArrayPattern child _ _ _ _) = valueSelection child"
| "valueSelection (InlinableTopLevelPattern child _) = valueSelection child"

fun shouldExtendSelectionToDeclaration :: "inlinable \<Rightarrow> bool" where
  "shouldExtendSelectionToDeclaration (InlinableIdentifier _ _ _ _) = True"
| "shouldExtendSelectionToDeclaration (InlinableTSTypeAlias _ _ _ _ _) = True"
| "shouldExtendSelectionToDeclaration (SingleDeclaration child) =
     shouldExtendSelectionToDeclaration child"
| "shouldExtendSelectionToDeclaration (MultipleDeclarations child _ _) =
     shouldExtendSelectionToDeclaration child"
| "shouldExtendSelectionToDeclaration (InlinableObjectPattern child _ _ hasRestSibling previous next) =
     (if \<not> shouldExtendSelectionToDeclaration child then False
      else if hasRestSibling then False
      else next = None \<and> previous = None)"
| "shouldExtendSelectionToDeclaration (InlinableArrayPattern child _ _ previous next) =
     (if \<not> shouldExtendSelectionToDeclaration child then False
      else next = None \<and> previous = None)"
| "shouldExtendSelectionToDeclaration (InlinableTopLevelPattern child _) =
     shouldExtendSelectionToDeclaration child"

definition propertyKey :: "'l node \<Rightarrow> 'l node option" where
  "propertyKey n = (case n of ObjectProperty _ k _ _ _ \<Rightarrow> Some k | _ \<Rightarrow> None)"

definition propertyValue :: "'l node \<Rightarrow> 'l node option" where
  "propertyValue n = (case n of ObjectProperty _ _ v _ _ \<Rightarrow> Some v | _ \<Rightarrow> None)"

fun codeToRemoveSelection :: "inlinable \<Rightarrow> selection" where
  "codeToRemoveSelection (InlinableIdentifier ident _ v _) =
     extendStartToStartOf v (selectionOf ident)"
| "codeToRemoveSelection (InlinableTSTypeAlias _ _ c _ _) = c"
| "codeToRemoveSelection (SingleDeclaration child) =
     (let selection = codeToRemoveSelection child in
      if \<not> shouldExtendSelectionToDeclaration child then selection
      else extendToStartOfNextLine (extendToStartOfLine selection))"
| "codeToRemoveSelection (MultipleDeclarations child previous next) =
     (let selection = codeToRemoveSelection child in
      if \<not> shouldExtendSelectionToDeclaration child then selection
      else (case next of
              Some n \<Rightarrow> extendEndToStartOf selection (selectionOf n)
            | None \<Rightarrow> extendStartToEndOf selection (selectionOf previous)))"
| "codeToRemoveSelection (InlinableObjectPattern child _ property hasRestSibling previous next) =
     (if \<not> shouldExtendSelectionToDeclaration child then codeToRemoveSelection child
      else if hasRestSibling then
        (let valueSelection = selectionOf (the (propertyValue property));
             keySelection = selectionOf (the (propertyKey property));
             NO_SELECTION = cursorAt 0 0
         in if isObjectPattern (the (propertyValue property))
            then extendStartToEndOf valueSelection keySelection
            else NO_SELECTION)
      else
        (let selection = selectionOf property in
         case next of
           Some n \<Rightarrow> extendEndToStartOf selection (selectionOf n)
         | None \<Rightarrow>
             (case previous of
                Some p \<Rightarrow> extendStartToEndOf selection (selectionOf p)
              | None \<Rightarrow> selection)))"
| "codeToRemoveSelection (InlinableArrayPattern child _ element previous next) =
     (if \<not> shouldExtendSelectionToDeclaration child then codeToRemoveSelection child
      else
        (let selection = selectionOf element in
         case (previous, next) of
           (Some p, None) \<Rightarrow> extendStartToEndOf selection (selectionOf p)
         | _ \<Rightarrow> selection))"
| "codeToRemoveSelection (InlinableTopLevelPattern child loc) =
     (if shouldExtendSelectionToDeclaration child then fromAST loc
      else codeToRemoveSelection child)"

subsection \<open>Rewriting the references\<close>

datatype modification = Modification (mod_code: string) (mod_selection: selection)

text \<open>\<open>split\<close> and \<open>join\<close> of strings; \<open>split\<close> always returns at least one part.\<close>

fun splitOn :: "char \<Rightarrow> string \<Rightarrow> string list" where
  "splitOn c [] = [[]]"
| "splitOn c (x # xs) =
     (if x = c then [] # splitOn c xs
      else (case splitOn c xs of y # ys \<Rightarrow> (x # y) # ys | [] \<Rightarrow> [[x]]))"

fun joinWith :: "string \<Rightarrow> string list \<Rightarrow> string" where
  "joinWith sep [] = []"
| "joinWith sep [x] = x"
| "joinWith sep (x # y # ys) = x @ sep @ joinWith sep (y # ys)"

function showNat :: "nat \<Rightarrow> string" where
  "showNat n =
     (if n < 10 then [''0123456789'' ! n]
      else showNat (n div 10) @ [''0123456789'' ! (n mod 10)])"
  by pat_completeness auto
termination
  by (relation "measure id") auto

declare showNat.simps [simp del]

definition prependObjectValueWithInitName :: "string \<Rightarrow> string \<Rightarrow> string" where
  "prependObjectValueWithInitName initName code =
     (let objectValue = hd (splitOn CHR '':'' code);
          OBJECT_SEPARATOR = ''.'';
          parts = splitOn CHR ''.'' objectValue;
          lastPart = last parts
      in joinWith OBJECT_SEPARATOR (butlast parts @ [initName, lastPart]))"

text \<open>A string is truthy when it is present and not empty.\<close>

definition truthy :: "string option \<Rightarrow> bool" where
  "truthy s = (case s of Some t \<Rightarrow> t \<noteq> [] | None \<Rightarrow> False)"

fun updateIdentifiersWith :: "inlinable \<Rightarrow> string \<Rightarrow> modification list" where
  "updateIdentifiersWith (InlinableIdentifier _ _ _ identifiersToReplace) inlinedCode =
     map (\<lambda>r. Modification
                (if isInUnaryExpression r then ''('' @ inlinedCode @ '')''
                 else if truthy (shorthandKey r)
                   then the (shorthandKey r) @ '': '' @ inlinedCode
                 else inlinedCode)
                (fromAST (itr_loc r)))
         identifiersToReplace"
| "updateIdentifiersWith (InlinableTSTypeAlias _ _ _ _ refToReplaceLocs) inlinedCode =
     map (\<lambda>loc. Modification inlinedCode (fromAST loc)) refToReplaceLocs"
| "updateIdentifiersWith (SingleDeclaration child) inlinedCode =
     updateIdentifiersWith child inlinedCode"
| "updateIdentifiersWith (MultipleDeclarations child _ _) inlinedCode =
     updateIdentifiersWith child inlinedCode"
| "updateIdentifiersWith (InlinableObjectPattern child initName _ _ _ _) inlinedCode =
     updateIdentifiersWith child (prependObjectValueWithInitName initName inlinedCode)"
| "updateIdentifiersWith (InlinableArrayPattern child index _ _ _) inlinedCode =
     updateIdentifiersWith child (inlinedCode @ ''['' @ showNat index @ '']'')"
| "updateIdentifiersWith (InlinableTopLevelPattern child _) inlinedCode =
     updateIdentifiersWith child inlinedCode"

section \<open>Pattern decomposer\<close>

text \<open>
  A declaration is a variable declarator of the tree or a plain pair of \<open>id\<close> and \<open>init\<close>
  built during the decomposition; \<open>isVariableDeclarator\<close> tells them apart.
\<close>

datatype decl =
  Declaration (decl_id: ast) (decl_init: "ast option") (isVariableDeclarator: bool)

subsection \<open>The name of an initializer\<close>

text \<open>A template literal renders \<open>null\<close> as the text \<open>null\<close>.\<close>

definition render :: "string option \<Rightarrow> string" where
  "render s = (case s of None \<Rightarrow> ''null'' | Some t \<Rightarrow> t)"

text \<open>
  \<open>property.value === null\<close>: the literals have a number or a string as their value, an
  object property has a node, and the other node kinds singled out here have no such
  field; a node of another kind has a \<open>value\<close> that is \<open>null\<close> when its fields say so.
\<close>

definition hasNullValue :: "'l node \<Rightarrow> bool" where
  "hasNullValue n =
     (case n of Other _ _ fields _ \<Rightarrow> map_of fields ''value'' = Some None | _ \<Rightarrow> False)"

fun getInitName :: "'l node \<Rightarrow> string option" where
  "getInitName (Identifier _ name) = Some name"
| "getInitName (MemberExpression _ obj property computed) =
     (let propertyName =
        (case property of
           NumericLiteral _ v \<Rightarrow> ''['' @ v @ '']''
         | StringLiteral _ v \<Rightarrow> ''['' @ [CHR 0x22] @ v @ [CHR 0x22] @ '']''
         | Identifier _ name \<Rightarrow>
             if computed then ''['' @ name @ '']'' else ''.'' @ render (getInitName property)
         | _ \<Rightarrow> ''.'' @ render (getInitName property))
      in if hasNullValue property \<and> getInitName property = None then None
         else Some (render (getInitName obj) @ propertyName))"
| "getInitName (ObjectProperty _ key _ _ _) = getInitName key"
| "getInitName (ThisExpression _) = Some ''this''"
| "getInitName _ = None"

subsection \<open>Decomposition\<close>

definition wrapInTopLevelPattern ::
  "inlinable option \<Rightarrow> decl \<Rightarrow> sourceLocation \<Rightarrow> inlinable option" where
  "wrapInTopLevelPattern child declaration loc =
     (case child of
        None \<Rightarrow> None
      | Some c \<Rightarrow>
          if isVariableDeclarator declaration then Some (InlinableTopLevelPattern c loc)
          else Some c)"

text \<open>\<open>xs[i]\<close> of an array: absent out of range, also at index \<open>-1\<close>.\<close>

definition at :: "'a list \<Rightarrow> nat \<Rightarrow> 'a option" where
  "at xs i = (if i < length xs then Some (xs ! i) else None)"

definition before :: "'a list \<Rightarrow> nat \<Rightarrow> 'a option" where
  "before xs i = (if i = 0 then None else at xs (i - 1))"

lemma size_property_value:
  assumes "i < length props" and "props ! i = ObjectProperty l k v c s"
  shows "size v < Suc (size_list size props)"
proof -
  have "ObjectProperty l k v c s \<in> set props"
    using assms by (metis nth_mem)
  then have "size (ObjectProperty l k v c s) < Suc (size_list size props)"
    by (rule size_list_member)
  then show ?thesis by simp
qed

lemma size_element:
  assumes "i < length elems" and "elems ! i = Some e"
  shows "size e < Suc (size_list (size_option size) elems)"
proof -
  have "Some e \<in> set elems"
    using assms by (metis nth_mem)
  then have "size_option size (Some e) < Suc (size_list (size_option size) elems)"
    by (rule size_list_member)
  then show ?thesis by simp
qed

text \<open>
  The two \<open>forEach\<close> loops are folds over the properties (elements) with their indices,
  whose state is the variable \<open>result\<close>; a callback that returns early leaves it as it is.
\<close>

function findInlinableCode :: "selection \<Rightarrow> ast \<Rightarrow> decl \<Rightarrow> inlinable option" where
  "findInlinableCode selection parent declaration =
     (case decl_init declaration of
        None \<Rightarrow> None
      | Some init \<Rightarrow>
     (case node_loc init of
        None \<Rightarrow> None
      | Some initLoc \<Rightarrow>
     (if isSelectableIdentifier (decl_id declaration)
      then Some (newInlinableIdentifier (decl_id declaration) parent initLoc)
      else
     (case decl_id declaration of
        ObjectPattern loc properties \<Rightarrow>
          (case loc of
             None \<Rightarrow> None
           | Some idLoc \<Rightarrow>
               wrapInTopLevelPattern
                 (fold (\<lambda>(index, property) result.
                    if \<not> isInsideNode selection property then result
                    else if isRestElement property then result
                    else if \<not> isSelectableObjectProperty property then result
                    else
                      (case property of
                         ObjectProperty _ _ v _ _ \<Rightarrow>
                           (case findInlinableCode selection parent
                                   (Declaration v (Some property) False) of
                              None \<Rightarrow> result
                            | Some child \<Rightarrow>
                                (case getInitName init of
                                   None \<Rightarrow> result
                                 | Some initName \<Rightarrow>
                                     if initName = [] then result
                                     else Some (newInlinableObjectPattern child initName property
                                            (list_ex isRestElement properties)
                                            (before properties index)
                                            (at properties (index + 1)))))
                       | _ \<Rightarrow> result))
                    (enumerate 0 properties) None)
                 declaration idLoc)
      | ArrayPattern loc elements \<Rightarrow>
          (case loc of
             None \<Rightarrow> None
           | Some idLoc \<Rightarrow>
               wrapInTopLevelPattern
                 (fold (\<lambda>(index, slot) result.
                    case slot of
                      None \<Rightarrow> result
                    | Some element \<Rightarrow>
                        if \<not> isInsideNode selection element then result
                        else if \<not> isSelectableNode element then result
                        else
                          (case findInlinableCode selection parent
                                  (Declaration element (Some init) False) of
                             None \<Rightarrow> result
                           | Some child \<Rightarrow>
                               Some (newInlinableArrayPattern child index element
                                      (Option.bind (before elements index) (\<lambda>e. e))
                                      (Option.bind (at elements (index + 1)) (\<lambda>e. e)))))
                    (enumerate 0 elements) None)
                 declaration idLoc)
      | _ \<Rightarrow> None))))"
  by pat_completeness auto
termination
  by (relation "measure (\<lambda>(s, p, d). size (decl_id d))")
     (auto simp: in_set_enumerate_eq intro: size_property_value size_element)

declare findInlinableCode.simps [simp del]

section \<open>Merging a statement with the previous if statement\<close>

text \<open>
  \<open>getStatements\<close> of the \<open>ast\<close> module is not part of the sources at hand and is a
  parameter; \<open>blockStatement\<close> builds a block without a location.
\<close>

definition mergeWith :: "(ast \<Rightarrow> ast list) \<Rightarrow> ast \<Rightarrow> ast list \<Rightarrow> ast" where
  "mergeWith getStatements branch statements =
     BlockStatement None (getStatements branch @ statements)"

text \<open>
  \<open>mergeWithIfStatement\<close> updates the if statement in place and calls itself on the
  alternate when that is an if statement. The model returns the updated if statement and
  makes no assumption that the recursion ends: a call that does not return is \<open>None\<close>, as
  is a call on a node that is no if statement, which the types of the source exclude.
\<close>

partial_function (option) mergeWithIfStatement :: "(ast \<Rightarrow> ast list) \<Rightarrow> ast \<Rightarrow> ast \<Rightarrow> ast option" where
  "mergeWithIfStatement getStatements ifStatement node =
     (case ifStatement of
        IfStatement loc test consequent alternate \<Rightarrow>
          (let nodesToMerge =
                 (case node of
                    IfStatement _ nodeTest nodeConsequent _ \<Rightarrow>
                      if areEqual test nodeTest then getStatements nodeConsequent else [node]
                  | _ \<Rightarrow> [node]);
               merged = mergeWith getStatements consequent nodesToMerge
           in case alternate of
                None \<Rightarrow> Some (IfStatement loc test merged None)
              | Some alt \<Rightarrow>
                  if isIfStatement alt
                  then Option.bind (mergeWithIfStatement getStatements alt node)
                         (\<lambda>alt'. Some (IfStatement loc test merged (Some alt')))
                  else Some (IfStatement loc test merged
                               (Some (mergeWith getStatements alt [node]))))
      | _ \<Rightarrow> None)"

section \<open>Definitions for the properties\<close>

text \<open>
  The walk over a list of edges, one edge at a time; \<open>traverse_unfold\<close> below states the
  walk of a node through it.
\<close>

fun traverseEdges ::
  "'l ancestor list \<Rightarrow> 'l node \<Rightarrow> (string \<times> nat option \<times> 'l node) list \<Rightarrow>
     ('l node \<times> 'l ancestor list) list" where
  "traverseEdges ancestors n [] = []"
| "traverseEdges ancestors n ((key, index, child) # es) =
     traverse (ancestors @ [Ancestor n key index]) child @ traverseEdges ancestors n es"

text \<open>
  What the callback of the object-pattern loop assigns to \<open>result\<close> at one property, or
  \<open>None\<close> when it returns before the assignment.
\<close>

definition objectPatternCandidate ::
  "selection \<Rightarrow> ast \<Rightarrow> ast \<Rightarrow> ast list \<Rightarrow> nat \<times> ast \<Rightarrow> inlinable option" where
  "objectPatternCandidate selection parent init properties = (\<lambda>(index, property).
     if \<not> isInsideNode selection property then None
     else if isRestElement property then None
     else if \<not> isSelectableObjectProperty property then None
     else
       (case propertyValue property of
          None \<Rightarrow> None
        | Some v \<Rightarrow>
            (case findInlinableCode selection parent (Declaration v (Some property) False) of
               None \<Rightarrow> None
             | Some child \<Rightarrow>
                 (case getInitName init of
                    None \<Rightarrow> None
                  | Some initName \<Rightarrow>
                      if initName = [] then None
                      else Some (newInlinableObjectPattern child initName property
                             (list_ex isRestElement properties)
                             (before properties index)
                             (at properties (index + 1)))))))"

text \<open>
  The wording of the specification for \<open>isRedeclared\<close>, to compare with the getter: the
  identifier "appears as the left side of a later assignment within its scope", an
  assignment that starts after the end of the binding identifier.
\<close>

definition startsAfter :: "ast \<Rightarrow> ast \<Rightarrow> bool" where
  "startsAfter node ident =
     (case (node_loc node, node_loc ident) of
        (Some a, Some b) \<Rightarrow> isSameOrBefore (loc_end b) (loc_start a)
      | _ \<Rightarrow> False)"

definition isAssignedLater :: "ast \<Rightarrow> ast \<Rightarrow> bool" where
  "isAssignedLater ident scope =
     list_ex (\<lambda>(node, ancestors). isAssignmentTo ident node \<and> startsAfter node ident)
       (traverse [] scope)"

text \<open>\<open>getStatements\<close> as its name says: the statements of a block, or the statement itself.\<close>

definition statementsOf :: "ast \<Rightarrow> ast list" where
  "statementsOf n = (case n of BlockStatement _ body \<Rightarrow> body | _ \<Rightarrow> [n])"

subsection \<open>Example programs\<close>

definition span :: "int \<Rightarrow> int \<Rightarrow> int \<Rightarrow> int \<Rightarrow> sourceLocation" where
  "span l1 c1 l2 c2 = SourceLocation (Position l1 c1) (Position l2 c2)"

text \<open>
  \<^verbatim>\<open>x = 5;\<close>
  \<^verbatim>\<open>var x = 1;\<close>
  \<^verbatim>\<open>foo(x);\<close>
\<close>

definition earlyId :: ast where
  "earlyId = Identifier (Some (span 2 4 2 5)) ''x''"

definition earlyProgram :: ast where
  "earlyProgram =
     Program (Some (span 1 0 3 7))
       [ExpressionStatement (Some (span 1 0 1 6))
          (AssignmentExpression (Some (span 1 0 1 5)) ''=''
             (Identifier (Some (span 1 0 1 1)) ''x'')
             (NumericLiteral (Some (span 1 4 1 5)) ''5'')),
        VariableDeclaration (Some (span 2 0 2 10)) ''var''
          [VariableDeclarator (Some (span 2 4 2 9)) earlyId
             (Some (NumericLiteral (Some (span 2 8 2 9)) ''1''))],
        ExpressionStatement (Some (span 3 0 3 7))
          (CallExpression (Some (span 3 0 3 6))
             (Identifier (Some (span 3 0 3 3)) ''foo'')
             [Identifier (Some (span 3 4 3 5)) ''x''])]"

text \<open>
  \<^verbatim>\<open>if (a) {} else if (b) {} else {}\<close>
  \<^verbatim>\<open>done();\<close>
\<close>

definition chainIf :: ast where
  "chainIf =
     IfStatement (Some (span 1 0 1 32)) (Identifier (Some (span 1 4 1 5)) ''a'')
       (BlockStatement (Some (span 1 7 1 9)) [])
       (Some (IfStatement (Some (span 1 15 1 32)) (Identifier (Some (span 1 19 1 20)) ''b'')
          (BlockStatement (Some (span 1 22 1 24)) [])
          (Some (BlockStatement (Some (span 1 30 1 32)) []))))"

definition chainNext :: ast where
  "chainNext =
     ExpressionStatement (Some (span 2 0 2 7))
       (CallExpression (Some (span 2 0 2 6)) (Identifier (Some (span 2 0 2 4)) ''done'') [])"

text \<open>
  \<^verbatim>\<open>const { a: [b, c], ...rest } = obj;\<close>
  \<^verbatim>\<open>foo(b);\<close>
\<close>

definition restB :: ast where
  "restB = Identifier (Some (span 1 12 1 13)) ''b''"

definition restC :: ast where
  "restC = Identifier (Some (span 1 15 1 16)) ''c''"

definition restArray :: ast where
  "restArray = ArrayPattern (Some (span 1 11 1 17)) [Some restB, Some restC]"

definition restProperty :: ast where
  "restProperty =
     ObjectProperty (Some (span 1 8 1 17)) (Identifier (Some (span 1 8 1 9)) ''a'') restArray
       False False"

definition restElement :: ast where
  "restElement = RestElement (Some (span 1 19 1 26)) (Identifier (Some (span 1 22 1 26)) ''rest'')"

definition restPattern :: ast where
  "restPattern = ObjectPattern (Some (span 1 6 1 28)) [restProperty, restElement]"

definition restInit :: ast where
  "restInit = Identifier (Some (span 1 31 1 34)) ''obj''"

definition restProgram :: ast where
  "restProgram =
     Program (Some (span 1 0 2 7))
       [VariableDeclaration (Some (span 1 0 1 35)) ''const''
          [VariableDeclarator (Some (span 1 6 1 34)) restPattern (Some restInit)],
        ExpressionStatement (Some (span 2 0 2 7))
          (CallExpression (Some (span 2 0 2 6))
             (Identifier (Some (span 2 0 2 3)) ''foo'')
             [Identifier (Some (span 2 4 2 5)) ''b''])]"

text \<open>The object-pattern wrapper found in it with the cursor on \<open>b\<close>.\<close>

definition restWrapper :: inlinable where
  "restWrapper =
     InlinableObjectPattern
       (InlinableArrayPattern (newInlinableIdentifier restB restProgram (span 1 8 1 17))
          0 restB None (Some restC))
       ''obj'' restProperty True None None"

text \<open>
  \<^verbatim>\<open>const { name, ...others } = obj;\<close>
\<close>

definition nameId :: ast where
  "nameId = Identifier (Some (span 1 8 1 12)) ''name''"

definition nameProperty :: ast where
  "nameProperty = ObjectProperty (Some (span 1 8 1 12)) nameId nameId False True"

definition nameRest :: ast where
  "nameRest = RestElement (Some (span 1 14 1 23)) (Identifier (Some (span 1 17 1 23)) ''others'')"

definition nameProperties :: "ast list" where
  "nameProperties = [nameProperty, nameRest]"

definition nameInit :: ast where
  "nameInit = Identifier (Some (span 1 28 1 31)) ''obj''"

definition nameProgram :: ast where
  "nameProgram =
     Program (Some (span 1 0 1 32))
       [VariableDeclaration (Some (span 1 0 1 32)) ''const''
          [VariableDeclarator (Some (span 1 6 1 31))
             (ObjectPattern (Some (span 1 6 1 25)) nameProperties) (Some nameInit)]]"

text \<open>
  \<^verbatim>\<open>const x = "a";\<close>
  \<^verbatim>\<open>foo(x);\<close>
  \<^verbatim>\<open>obj[x];\<close>
\<close>

definition computedId :: ast where
  "computedId = Identifier (Some (span 1 6 1 7)) ''x''"

definition computedMember :: ast where
  "computedMember =
     MemberExpression (Some (span 3 0 3 6)) (Identifier (Some (span 3 0 3 3)) ''obj'')
       (Identifier (Some (span 3 4 3 5)) ''x'') True"

definition computedProgram :: ast where
  "computedProgram =
     Program (Some (span 1 0 3 7))
       [VariableDeclaration (Some (span 1 0 1 14)) ''const''
          [VariableDeclarator (Some (span 1 6 1 13)) computedId
             (Some (StringLiteral (Some (span 1 10 1 13)) ''a''))],
        ExpressionStatement (Some (span 2 0 2 7))
          (CallExpression (Some (span 2 0 2 6))
             (Identifier (Some (span 2 0 2 3)) ''foo'')
             [Identifier (Some (span 2 4 2 5)) ''x'']),
        ExpressionStatement (Some (span 3 0 3 7)) computedMember]"



















text \<open>
  \<^verbatim>\<open>const { a } = obj[b + c];\<close>
  \<^verbatim>\<open>foo(a);\<close>
\<close>

definition memberInit :: ast where
  "memberInit =
     MemberExpression (Some (span 1 14 1 24)) (Identifier (Some (span 1 14 1 17)) ''obj'')
       (Other ''BinaryExpression'' (Some (span 1 18 1 23)) [(''operator'', Some ''+'')]
          [(''left'', None, Identifier (Some (span 1 18 1 19)) ''b''),
           (''right'', None, Identifier (Some (span 1 22 1 23)) ''c'')])
       True"

definition memberValue :: ast where
  "memberValue = Identifier (Some (span 1 8 1 9)) ''a''"

definition memberProperty :: ast where
  "memberProperty =
     ObjectProperty (Some (span 1 8 1 9)) (Identifier (Some (span 1 8 1 9)) ''a'') memberValue
       False True"

definition memberPattern :: ast where
  "memberPattern = ObjectPattern (Some (span 1 6 1 11)) [memberProperty]"

definition memberProgram :: ast where
  "memberProgram =
     Program (Some (span 1 0 2 7))
       [VariableDeclaration (Some (span 1 0 1 25)) ''const''
          [VariableDeclarator (Some (span 1 6 1 24)) memberPattern (Some memberInit)],
        ExpressionStatement (Some (span 2 0 2 7))
          (CallExpression (Some (span 2 0 2 6))
             (Identifier (Some (span 2 0 2 3)) ''foo'')
             [Identifier (Some (span 2 4 2 5)) ''a''])]"

text \<open>The child of \<open>restWrapper\<close>, and the child of a composite in general.\<close>

definition restChild :: inlinable where
  "restChild =
     InlinableArrayPattern (newInlinableIdentifier restB restProgram (span 1 8 1 17))
       0 restB None (Some restC)"

definition wrappedChild :: "inlinable \<Rightarrow> inlinable option" where
  "wrappedChild w =
     (case w of
        SingleDeclaration child \<Rightarrow> Some child
      | MultipleDeclarations child _ _ \<Rightarrow> Some child
      | InlinableObjectPattern child _ _ _ _ _ \<Rightarrow> Some child
      | InlinableArrayPattern child _ _ _ _ \<Rightarrow> Some child
      | InlinableTopLevelPattern child _ \<Rightarrow> Some child
      | _ \<Rightarrow> None)"

text \<open>
  The text a composite hands to the \<open>updateIdentifiersWith\<close> of its child when it is
  given \<open>inlinedCode\<close>.
\<close>

definition textForChild :: "inlinable \<Rightarrow> string \<Rightarrow> string" where
  "textForChild w inlinedCode =
     (case w of
        InlinableObjectPattern _ initName _ _ _ _ \<Rightarrow>
          prependObjectValueWithInitName initName inlinedCode
      | InlinableArrayPattern _ index _ _ _ \<Rightarrow> inlinedCode @ ''['' @ showNat index @ '']''
      | _ \<Rightarrow> inlinedCode)"

section \<open>The function inliner\<close>

text \<open>
  Modelled from the spec: the function inliner (the file \<open>inline-function.ts\<close>) and the
  error reasons of the editor are not part of the sources at hand; of the function
  inliner only its tests are. The definitions below follow sections 4.4 and 7 of the
  specification: the eligibility checks in their order, then the batch of edits and the
  notices shown.
\<close>

datatype errorReason =
    DidNotFindInlinableCode
  | CantInlineFunctionWithMultipleReturns
  | CantInlineAssignedFunctionWithoutReturn
  | CantInlineAssignedFunctionWithManyStatements
  | CantRemoveExportedFunction

text \<open>What an operation hands to the editor: the edits written as one batch, the notices shown.\<close>

datatype outcome = Outcome (modifications: "modification list") (notices: "errorReason list")

text \<open>
  A reference to the function: its range and whether it is a plain call or a use "in a
  non-call position (assigned to a variable, returned, passed as a value)".
\<close>

datatype referenceShape = Called | UsedAsValue

datatype reference = Reference (ref_selection: selection) (ref_shape: referenceShape)

definition isReturnStatement :: "'l node \<Rightarrow> bool" where
  "isReturnStatement n = (case n of ReturnStatement _ _ \<Rightarrow> True | _ \<Rightarrow> False)"

definition functionBody :: "'l node \<Rightarrow> 'l node option" where
  "functionBody f = (case f of FunctionDeclaration _ _ _ body \<Rightarrow> Some body | _ \<Rightarrow> None)"

definition bodyStatements :: "'l node \<Rightarrow> 'l node list" where
  "bodyStatements f =
     (case functionBody f of Some (BlockStatement _ statements) \<Rightarrow> statements | _ \<Rightarrow> [])"

text \<open>
  The return statements of a function, "counting only statements, not nested functions":
  those in its body that are not inside a function (a declaration, an expression, an
  arrow or a method) nested in the body.
\<close>

definition isFunctionNode :: "'l node \<Rightarrow> bool" where
  "isFunctionNode n =
     (case n of
        FunctionDeclaration _ _ _ _ \<Rightarrow> True
      | Other kind _ _ _ \<Rightarrow>
          kind \<in> set [''FunctionExpression'', ''ArrowFunctionExpression'', ''ObjectMethod'',
                       ''ClassMethod'']
      | _ \<Rightarrow> False)"

definition returnStatementsOf :: "'l node \<Rightarrow> 'l node list" where
  "returnStatementsOf f =
     (case functionBody f of
        None \<Rightarrow> []
      | Some body \<Rightarrow>
          map fst (filter (\<lambda>(n, ancestors).
                      isReturnStatement n \<and>
                      \<not> list_ex (\<lambda>a. isFunctionNode (anc_node a)) ancestors)
                    (traverse [] body)))"

definition endsWithReturn :: "'l node \<Rightarrow> bool" where
  "endsWithReturn f =
     (case lastOf (bodyStatements f) of Some statement \<Rightarrow> isReturnStatement statement
      | None \<Rightarrow> False)"

definition usedAsValue :: "reference list \<Rightarrow> bool" where
  "usedAsValue references = list_ex (\<lambda>r. ref_shape r = UsedAsValue) references"

text \<open>
  \<open>found\<close> is the function declaration at the selection, if any; \<open>inlinedCode\<close> gives the
  text that replaces a reference (the body with the arguments substituted); \<open>exported\<close>
  tells whether the name of the function is in the export list of the scope.
\<close>

definition inlineFunction ::
  "ast option \<Rightarrow> reference list \<Rightarrow> bool \<Rightarrow> (reference \<Rightarrow> string) \<Rightarrow> errorReason + outcome" where
  "inlineFunction found references exported inlinedCode =
     (case found of
        None \<Rightarrow> Inl DidNotFindInlinableCode
      | Some f \<Rightarrow>
          if length (returnStatementsOf f) > 1
            then Inl CantInlineFunctionWithMultipleReturns
          else if length (returnStatementsOf f) = 1 \<and> \<not> endsWithReturn f
            then Inl CantInlineFunctionWithMultipleReturns
          else if usedAsValue references \<and> length (bodyStatements f) > 1
            then Inl CantInlineAssignedFunctionWithManyStatements
          else if usedAsValue references \<and> \<not> endsWithReturn f
            then Inl CantInlineAssignedFunctionWithoutReturn
          else
            Inr (Outcome
                   (map (\<lambda>r. Modification (inlinedCode r) (ref_selection r)) references @
                    (if exported then [] else [Modification [] (selectionOf f)]))
                   (if exported then [CantRemoveExportedFunction] else [])))"

subsection \<open>An example from the tests\<close>

text \<open>
  \<^verbatim>\<open>function getFirstName(name) {\<close>
  \<^verbatim>\<open>  if (!name) return "unknown";\<close>
  \<^verbatim>\<open>  return name.split(" ")[0];\<close>
  \<^verbatim>\<open>}\<close>
\<close>

definition getFirstName :: ast where
  "getFirstName =
     FunctionDeclaration (Some (span 1 0 4 1)) (Identifier (Some (span 1 9 1 21)) ''getFirstName'')
       [Identifier (Some (span 1 22 1 26)) ''name'']
       (BlockStatement (Some (span 1 28 4 1))
          [IfStatement (Some (span 2 2 2 30))
             (UnaryExpression (Some (span 2 6 2 11)) ''!''
                (Identifier (Some (span 2 7 2 11)) ''name''))
             (ReturnStatement (Some (span 2 13 2 30))
                (Some (StringLiteral (Some (span 2 20 2 29)) ''unknown'')))
             None,
           ReturnStatement (Some (span 3 2 3 28))
             (Some (MemberExpression (Some (span 3 9 3 27))
                (CallExpression (Some (span 3 9 3 24))
                   (MemberExpression (Some (span 3 9 3 19))
                      (Identifier (Some (span 3 9 3 13)) ''name'')
                      (Identifier (Some (span 3 14 3 19)) ''split'') False)
                   [StringLiteral (Some (span 3 20 3 23)) '' ''])
                (NumericLiteral (Some (span 3 25 3 26)) ''0'') True))])"

section \<open>Properties\<close>

subsection \<open>Auxiliary facts\<close>

lemma traverseEdges_concat:
  "traverseEdges ancestors n es =
     concat (map (\<lambda>(key, index, child). traverse (ancestors @ [Ancestor n key index]) child) es)"
  by (induction es) auto

lemma traverse_unfold: "traverse ancestors n = (n, ancestors) # traverseEdges ancestors n (edges n)"
  by (simp add: traverse.simps [of ancestors n] traverseEdges_concat)

lemmas eval_defs = traverse_unfold single_def optional_def indexed_def indexedOptional_def
  List.map_filter_def span_def isAssignmentTo_def areEqual_def startsAfter_def isSameOrBefore_def

lemma areEqual_Identifier:
  "areEqual (Identifier l name) n \<longleftrightarrow> (\<exists>l'. n = Identifier l' name)"
  by (cases n) (auto simp: areEqual_def)

lemma isAssignmentTo_Identifier:
  "isAssignmentTo (Identifier l name) node \<longleftrightarrow>
     (\<exists>al operator l' right. node = AssignmentExpression al operator (Identifier l' name) right)"
  by (cases node) (auto simp: isAssignmentTo_def areEqual_Identifier)

lemma lastOf_if: "lastOf xs = (if xs = [] then None else Some (last xs))"
  by (cases xs) (simp_all add: lastOf_def)

lemma lastOf_snoc: "lastOf (ys @ [r]) = Some r"
  by (simp add: lastOf_if)

lemma fold_last_candidate:
  "fold (\<lambda>x result. case cand x of None \<Rightarrow> result | Some r \<Rightarrow> Some r) xs start =
     (case lastOf (List.map_filter cand xs) of None \<Rightarrow> start | Some r \<Rightarrow> Some r)"
proof (induction xs rule: rev_induct)
  case Nil
  show ?case by (simp add: lastOf_def List.map_filter_def)
next
  case (snoc x xs)
  show ?case
  proof (cases "cand x")
    case None
    then show ?thesis using snoc by (simp add: List.map_filter_def)
  next
    case (Some r)
    then show ?thesis by (simp add: List.map_filter_def lastOf_snoc)
  qed
qed

lemmas findInlinableCode_ObjectPattern =
  findInlinableCode.simps [of selection parent "Declaration (ObjectPattern loc properties) init isDecl"]
  for selection parent loc properties init isDecl

lemma objectPattern_step:
  "(\<lambda>(index, property) result.
      if \<not> isInsideNode selection property then result
      else if isRestElement property then result
      else if \<not> isSelectableObjectProperty property then result
      else
        (case property of
           ObjectProperty _ _ v _ _ \<Rightarrow>
             (case findInlinableCode selection parent (Declaration v (Some property) False) of
                None \<Rightarrow> result
              | Some child \<Rightarrow>
                  (case getInitName init of
                     None \<Rightarrow> result
                   | Some initName \<Rightarrow>
                       if initName = [] then result
                       else Some (newInlinableObjectPattern child initName property
                              (list_ex isRestElement properties)
                              (before properties index)
                              (at properties (index + 1)))))
         | _ \<Rightarrow> result))
   = (\<lambda>x result. case objectPatternCandidate selection parent init properties x of
                    None \<Rightarrow> result | Some r \<Rightarrow> Some r)"
  by (rule ext, rule ext)
     (auto simp: objectPatternCandidate_def propertyValue_def isSelectableObjectProperty_def
           split: node.splits option.splits prod.splits)

lemma findInlinableCode_objectPattern_last:
  assumes "node_loc init = Some initLoc"
  shows "findInlinableCode selection parent
           (Declaration (ObjectPattern (Some idLoc) properties) (Some init) isDecl) =
         wrapInTopLevelPattern
           (lastOf (List.map_filter (objectPatternCandidate selection parent init properties)
                      (enumerate 0 properties)))
           (Declaration (ObjectPattern (Some idLoc) properties) (Some init) isDecl) idLoc"
  using assms
  apply (subst findInlinableCode_ObjectPattern)
  apply (simp only: objectPattern_step fold_last_candidate)
  apply (simp add: isSelectableIdentifier_def isIdentifier_def split: option.splits)
  done

lemma lastOf_map_filter_Some:
  assumes "lastOf (List.map_filter f xs) = Some r"
  shows "\<exists>i < length xs. f (xs ! i) = Some r \<and>
           (\<forall>j. i < j \<and> j < length xs \<longrightarrow> f (xs ! j) = None)"
  using assms
proof (induction xs rule: rev_induct)
  case Nil
  then show ?case by (simp add: List.map_filter_def lastOf_def)
next
  case (snoc x xs)
  show ?case
  proof (cases "f x")
    case None
    then have "List.map_filter f (xs @ [x]) = List.map_filter f xs"
      by (simp add: List.map_filter_def)
    with snoc obtain i where i: "i < length xs" "f (xs ! i) = Some r"
      "\<forall>j. i < j \<and> j < length xs \<longrightarrow> f (xs ! j) = None"
      by auto
    have "\<forall>j. i < j \<and> j < length (xs @ [x]) \<longrightarrow> f ((xs @ [x]) ! j) = None"
      using i(3) None by (auto simp: nth_append)
    moreover have "f ((xs @ [x]) ! i) = Some r"
      using i by (simp add: nth_append)
    ultimately show ?thesis
      using i(1) by (intro exI [of _ i]) simp
  next
    case (Some r')
    then have "List.map_filter f (xs @ [x]) = List.map_filter f xs @ [r']"
      by (simp add: List.map_filter_def)
    with snoc.prems have "r' = r"
      by (simp add: lastOf_snoc)
    with Some show ?thesis
      by (intro exI [of _ "length xs"]) auto
  qed
qed

lemma last_candidate_index:
  assumes "lastOf (List.map_filter cand (enumerate 0 properties)) = Some r"
  shows "\<exists>index < length properties.
           cand (index, properties ! index) = Some r \<and>
           (\<forall>j. index < j \<and> j < length properties \<longrightarrow> cand (j, properties ! j) = None)"
proof -
  from lastOf_map_filter_Some [OF assms] obtain i where
    i: "i < length properties" "cand (enumerate 0 properties ! i) = Some r"
    "\<forall>j. i < j \<and> j < length (enumerate 0 properties) \<longrightarrow>
       cand (enumerate 0 properties ! j) = None"
    by auto
  have "cand (i, properties ! i) = Some r"
    using i(1,2) by (simp add: nth_enumerate_eq)
  moreover have "\<forall>j. i < j \<and> j < length properties \<longrightarrow> cand (j, properties ! j) = None"
    using i(3) by (auto simp: nth_enumerate_eq)
  ultimately show ?thesis using i(1) by blast
qed

lemma candidate_not_rest:
  "objectPatternCandidate selection parent init properties (index, property) = Some r \<Longrightarrow>
     \<not> isRestElement property \<and> isInsideNode selection property"
  by (simp add: objectPatternCandidate_def split: if_splits)

subsection \<open>Evaluation of the examples\<close>

lemmas findInlinableCode_ArrayPattern =
  findInlinableCode.simps [of selection parent "Declaration (ArrayPattern loc elements) init isDecl"]
  for selection parent loc elements init isDecl

lemmas findInlinableCode_Identifier =
  findInlinableCode.simps [of selection parent "Declaration (Identifier loc name) init isDecl"]
  for selection parent loc name init isDecl

lemmas find_defs = findInlinableCode_ObjectPattern findInlinableCode_ArrayPattern
  findInlinableCode_Identifier isSelectableIdentifier_def isIdentifier_def isSelectableNode_def
  isSelectableObjectProperty_def isRestElement_def isInsideNode_def isInside_def
  isSameOrBefore_def fromAST_def cursorAt_def span_def wrapInTopLevelPattern_def
  newInlinableObjectPattern_def newInlinableArrayPattern_def selectableObjectProperty_def
  selectableNode_def before_def at_def enumerate_eq_zip

lemmas enter_defs = computeIdentifiersToReplace_def enterIdentifier_def isShadowIn_def
  redeclares_def declaresName_def bindsName_def childrenAt_def functionKinds_def hoistsVar_def
  isFunctionScope_def lastOf_def entryIsFunctionDeclaration_def isObjectProperty_def
  isMemberExpression_def isUnaryExpression_def isShorthand_def identifierName_def
  isInsideNode_def isInside_def fromAST_def

lemma restProgram_found:
  "findInlinableCode (cursorAt 0 12) restProgram (Declaration restPattern (Some restInit) True) =
     Some (InlinableTopLevelPattern restWrapper (span 1 6 1 28))"
  unfolding restWrapper_def restPattern_def restProperty_def restArray_def restElement_def
    restInit_def restB_def restC_def
  by (simp add: find_defs upt_rec)

lemma nameProgram_found:
  "findInlinableCode (cursorAt 0 8) nameProgram
     (Declaration (ObjectPattern (Some (span 1 6 1 25)) nameProperties) (Some nameInit) True) =
   Some (InlinableTopLevelPattern
     (InlinableObjectPattern (newInlinableIdentifier nameId nameProgram (span 1 8 1 12))
        ''obj'' nameProperty True None None) (span 1 6 1 25))"
  unfolding nameProperties_def nameProperty_def nameRest_def nameInit_def nameId_def
  by (simp add: find_defs upt_rec)

lemma chainIf_merged:
  "mergeWithIfStatement statementsOf chainIf chainNext =
     Some (IfStatement (Some (span 1 0 1 32)) (Identifier (Some (span 1 4 1 5)) ''a'')
       (BlockStatement None [chainNext])
       (Some (IfStatement (Some (span 1 15 1 32)) (Identifier (Some (span 1 19 1 20)) ''b'')
          (BlockStatement None [chainNext])
          (Some (BlockStatement None [chainNext])))))"
  by (simp add: mergeWithIfStatement.simps chainIf_def chainNext_def mergeWith_def
        statementsOf_def isIfStatement_def)





lemma restProgram_references:
  "computeIdentifiersToReplace restB restProgram =
     [IdentifierToReplace (span 2 4 2 5) False None]"
  by (simp add: restProgram_def restPattern_def restProperty_def restArray_def restElement_def
        restInit_def restB_def restC_def enter_defs eval_defs)

lemma memberProgram_references:
  "computeIdentifiersToReplace memberValue memberProgram =
     [IdentifierToReplace (span 2 4 2 5) False None]"
  by (simp add: memberProgram_def memberPattern_def memberProperty_def memberValue_def
        memberInit_def enter_defs eval_defs)

lemma memberProgram_found:
  "findInlinableCode (cursorAt 0 8) memberProgram (Declaration memberPattern (Some memberInit) True) =
     Some (InlinableTopLevelPattern
       (InlinableObjectPattern (newInlinableIdentifier memberValue memberProgram (span 1 8 1 9))
          ''obj.null'' memberProperty False None None)
       (span 1 6 1 11))"
  unfolding memberPattern_def memberProperty_def memberValue_def memberInit_def
  by (simp add: find_defs upt_rec render_def hasNullValue_def)




lemma updateIdentifiersWith_ranges:
  "map mod_selection (updateIdentifiersWith c inlinedCode) =
     map mod_selection (updateIdentifiersWith c otherCode)"
  by (induction c arbitrary: inlinedCode otherCode) (simp_all add: comp_def)

lemma getInitName_member_None:
  "getInitName (MemberExpression l obj property computed) = None \<longleftrightarrow>
     hasNullValue property \<and> getInitName property = None"
  by (simp add: Let_def)



subsection \<open>Reassignment\<close>

text \<open>
  Claim C2, as amended. The getter \<open>isRedeclared\<close> of an inlinable identifier is true if
  and only if some node visited in the scope, at any depth and at any place before or
  after the declaration, is an assignment expression whose left side is an identifier of
  the binding's name.
\<close>

theorem isRedeclared_iff_assigned_anywhere:
  "isRedeclared (newInlinableIdentifier (Identifier l name) scope valueLoc) \<longleftrightarrow>
     (\<exists>node \<in> fst ` set (traverse [] scope).
        \<exists>al operator l' right. node = AssignmentExpression al operator (Identifier l' name) right)"
proof -
  have "isRedeclared (newInlinableIdentifier (Identifier l name) scope valueLoc) \<longleftrightarrow>
          (\<exists>node \<in> fst ` set (traverse [] scope). isAssignmentTo (Identifier l name) node)"
    by (force simp: newInlinableIdentifier_def isRedeclaredIn_def list_ex_iff)
  then show ?thesis
    by (simp only: isAssignmentTo_Identifier)
qed

text \<open>
  Claim C2 as stated fails: in \<open>earlyProgram\<close> the only assignment to \<open>x\<close> stands before the
  declaration of \<open>x\<close>, no assignment follows it, and \<open>isRedeclared\<close> is true.
\<close>

theorem isRedeclared_early_assignment:
  "isRedeclared (newInlinableIdentifier earlyId earlyProgram (span 2 8 2 9)) \<and>
   \<not> isAssignedLater earlyId earlyProgram"
  by (simp add: newInlinableIdentifier_def isRedeclaredIn_def isAssignedLater_def
        earlyProgram_def earlyId_def eval_defs)

subsection \<open>Initializers without a name\<close>

text \<open>
  When \<open>getInitName\<close> of the initializer is \<open>null\<close>, the decomposition of an object pattern
  yields no inlinable code, whatever the selection and the properties are.
\<close>

lemma findInlinableCode_unnamed_init:
  assumes "getInitName init = None"
  shows "findInlinableCode selection parent
           (Declaration (ObjectPattern loc properties) (Some init) isDecl) = None"
proof (cases "node_loc init")
  case None
  then show ?thesis
    by (subst findInlinableCode_ObjectPattern) simp
next
  case (Some initLoc)
  have none: "objectPatternCandidate selection parent init properties x = None" for x
    using assms by (simp add: objectPatternCandidate_def split: prod.splits option.splits)
  show ?thesis
  proof (cases loc)
    case None
    then show ?thesis
      by (subst findInlinableCode_ObjectPattern)
         (simp add: isSelectableIdentifier_def isIdentifier_def split: option.splits)
  next
    case (Some idLoc)
    have "List.map_filter (objectPatternCandidate selection parent init properties)
            (enumerate 0 properties) = []"
      by (simp add: List.map_filter_def none)
    then show ?thesis
      using \<open>node_loc init = Some initLoc\<close> Some
      by (simp add: findInlinableCode_objectPattern_last lastOf_def wrapInTopLevelPattern_def)
  qed
qed

text \<open>
  Claim C7 (what the code does). The initializer \<open>obj[b + c]\<close> of \<open>memberProgram\<close> is a
  member access whose property cannot be rendered as a name: \<open>getInitName\<close> of the
  property is \<open>null\<close>. The property has no field \<open>value\<close>, so the test
  \<open>property.value === null\<close> under which the code stops is false, and \<open>getInitName\<close> of a
  member access is \<open>null\<close> only when that test is true. The name of the initializer is
  the text \<open>obj.null\<close>, the decomposition with the cursor on \<open>a\<close> yields an inlinable
  code, and the \<open>a\<close> of \<open>foo(a)\<close> is rewritten to \<open>obj.null.a\<close>.
\<close>

theorem unresolvable_member_named_null:
  "(\<forall>l obj property computed.
      getInitName (MemberExpression l obj property computed) = None \<longleftrightarrow>
        hasNullValue property \<and> getInitName property = (None :: string option)) \<and>
   getInitName (Other ''BinaryExpression'' (Some (span 1 18 1 23)) [(''operator'', Some ''+'')]
          [(''left'', None, Identifier (Some (span 1 18 1 19)) ''b''),
           (''right'', None, Identifier (Some (span 1 22 1 23)) ''c'')]) = None \<and>
   getInitName memberInit = Some ''obj.null'' \<and>
   findInlinableCode (cursorAt 0 8) memberProgram (Declaration memberPattern (Some memberInit) True) =
     Some (InlinableTopLevelPattern
       (InlinableObjectPattern (newInlinableIdentifier memberValue memberProgram (span 1 8 1 9))
          ''obj.null'' memberProperty False None None)
       (span 1 6 1 11)) \<and>
   updateIdentifiersWith
     (InlinableTopLevelPattern
       (InlinableObjectPattern (newInlinableIdentifier memberValue memberProgram (span 1 8 1 9))
          ''obj.null'' memberProperty False None None)
       (span 1 6 1 11)) ''a'' =
     [Modification ''obj.null.a'' (Selection (Position 1 4) (Position 1 5))]"
proof -
  have name: "getInitName memberInit = Some ''obj.null''"
    by (simp add: memberInit_def render_def hasNullValue_def)
  have rewrite: "updateIdentifiersWith
     (InlinableTopLevelPattern
       (InlinableObjectPattern (newInlinableIdentifier memberValue memberProgram (span 1 8 1 9))
          ''obj.null'' memberProperty False None None)
       (span 1 6 1 11)) ''a'' =
     [Modification ''obj.null.a'' (Selection (Position 1 4) (Position 1 5))]"
    by (simp add: newInlinableIdentifier_def memberProgram_references
          prependObjectValueWithInitName_def truthy_def fromAST_def span_def)
  show ?thesis
    using name rewrite memberProgram_found getInitName_member_None by simp
qed

subsection \<open>Composite wrappers\<close>

text \<open>
  Claim C8, as amended. Each composite wrapper reports the \<open>isRedeclared\<close>, \<open>isExported\<close>,
  \<open>hasIdentifiersToUpdate\<close> and \<open>valueSelection\<close> of its child. Besides the two delete-range
  attributes, \<open>updateIdentifiersWith\<close> is the other member that can differ from the
  child's: a wrapper returns the edits of its child for the text it hands down, which
  the object-pattern wrapper qualifies with the name of the initializer and the
  array-pattern wrapper follows with the index, and which the three other wrappers leave
  as it is; the ranges of the edits are those of the child's edits in every case.
\<close>

theorem composite_wrappers_delegate:
  assumes "wrappedChild w = Some child"
  shows "isRedeclared w = isRedeclared child \<and>
         isExported f w = isExported f child \<and>
         hasIdentifiersToUpdate w = hasIdentifiersToUpdate child \<and>
         valueSelection w = valueSelection child \<and>
         updateIdentifiersWith w inlinedCode =
           updateIdentifiersWith child (textForChild w inlinedCode) \<and>
         map mod_selection (updateIdentifiersWith w inlinedCode) =
           map mod_selection (updateIdentifiersWith child inlinedCode) \<and>
         (w = SingleDeclaration child \<or> (\<exists>p n. w = MultipleDeclarations child p n) \<or>
            (\<exists>l. w = InlinableTopLevelPattern child l) \<longrightarrow>
          updateIdentifiersWith w inlinedCode = updateIdentifiersWith child inlinedCode)"
proof -
  have eqs: "isRedeclared w = isRedeclared child \<and>
         isExported f w = isExported f child \<and>
         hasIdentifiersToUpdate w = hasIdentifiersToUpdate child \<and>
         valueSelection w = valueSelection child \<and>
         updateIdentifiersWith w inlinedCode =
           updateIdentifiersWith child (textForChild w inlinedCode)"
    using assms by (cases w) (simp_all add: wrappedChild_def textForChild_def)
  then have "map mod_selection (updateIdentifiersWith w inlinedCode) =
           map mod_selection (updateIdentifiersWith child (textForChild w inlinedCode))"
    by simp
  also have "\<dots> = map mod_selection (updateIdentifiersWith child inlinedCode)"
    by (rule updateIdentifiersWith_ranges)
  finally have ranges: "map mod_selection (updateIdentifiersWith w inlinedCode) =
           map mod_selection (updateIdentifiersWith child inlinedCode)" .
  have "w = SingleDeclaration child \<or> (\<exists>p n. w = MultipleDeclarations child p n) \<or>
            (\<exists>l. w = InlinableTopLevelPattern child l) \<longrightarrow>
          updateIdentifiersWith w inlinedCode = updateIdentifiersWith child inlinedCode"
    by auto
  with eqs ranges show ?thesis by blast
qed

theorem composite_wrappers_delegate_witness:
  "wrappedChild restWrapper = Some restChild \<and>
   isRedeclared restWrapper = isRedeclared restChild \<and>
   valueSelection restWrapper = valueSelection restChild \<and>
   updateIdentifiersWith restWrapper ''a: [b, c]'' =
     updateIdentifiersWith restChild (textForChild restWrapper ''a: [b, c]'') \<and>
   textForChild restWrapper ''a: [b, c]'' = ''obj.a'' \<and>
   map mod_selection (updateIdentifiersWith restWrapper ''a: [b, c]'') =
     map mod_selection (updateIdentifiersWith restChild ''a: [b, c]'')"
proof -
  have h: "wrappedChild restWrapper = Some restChild"
    by (simp add: wrappedChild_def restWrapper_def restChild_def)
  have t: "textForChild restWrapper ''a: [b, c]'' = ''obj.a''"
    by (simp add: textForChild_def restWrapper_def prependObjectValueWithInitName_def)
  show ?thesis
    using h t composite_wrappers_delegate [OF h, of _ "''a: [b, c]''"] by blast
qed

text \<open>
  Claim C8 as stated fails: in \<open>restProgram\<close> the object-pattern wrapper found with the
  cursor on \<open>b\<close> and its child, the array-pattern wrapper, return different edits for the
  text of the value: the wrapper rewrites the \<open>b\<close> of \<open>foo(b)\<close> to \<open>obj.a[0]\<close>, the child
  alone to the text followed by \<open>[0]\<close>. So a member of the interface other than the two
  delete-range attributes differs from the child's.
\<close>

theorem wrapper_changes_replacement_text:
  "wrappedChild restWrapper = Some restChild \<and>
   updateIdentifiersWith restWrapper ''a: [b, c]'' =
     [Modification ''obj.a[0]'' (Selection (Position 1 4) (Position 1 5))] \<and>
   updateIdentifiersWith restChild ''a: [b, c]'' =
     [Modification ''a: [b, c][0]'' (Selection (Position 1 4) (Position 1 5))] \<and>
   updateIdentifiersWith restWrapper ''a: [b, c]'' \<noteq> updateIdentifiersWith restChild ''a: [b, c]''"
  by (simp add: wrappedChild_def restWrapper_def restChild_def newInlinableIdentifier_def
        restProgram_references prependObjectValueWithInitName_def truthy_def fromAST_def
        span_def showNat.simps)

subsection \<open>Merging terminates\<close>

text \<open>
  Claim C9. \<open>mergeWithIfStatement\<close> returns on every if statement: the only recursive call
  is on the alternate, a proper subtree of the if statement, so the walk down the chain
  of alternates ends.
\<close>

theorem mergeWithIfStatement_returns:
  assumes "isIfStatement ifStatement"
  shows "\<exists>result. mergeWithIfStatement getStatements ifStatement node = Some result"
  using assms
proof (induction "size ifStatement" arbitrary: ifStatement rule: less_induct)
  case less
  from less.prems obtain loc test cons alt where ifs: "ifStatement = IfStatement loc test cons alt"
    by (auto simp: isIfStatement_def split: node.splits)
  show ?case
  proof (cases alt)
    case None
    then show ?thesis
      by (subst mergeWithIfStatement.simps) (simp add: ifs Let_def)
  next
    case (Some a)
    show ?thesis
    proof (cases "isIfStatement a")
      case True
      have "size a < size ifStatement"
        by (simp add: ifs Some)
      from less.hyps [OF this True] obtain r where
        "mergeWithIfStatement getStatements a node = Some r" by blast
      then show ?thesis
        by (subst mergeWithIfStatement.simps) (simp add: ifs Some True Let_def)
    next
      case False
      then show ?thesis
        by (subst mergeWithIfStatement.simps) (simp add: ifs Some Let_def)
    qed
  qed
qed

theorem mergeWithIfStatement_returns_witness:
  "isIfStatement chainIf \<and>
   (\<exists>result. mergeWithIfStatement statementsOf chainIf chainNext = Some result) \<and>
   mergeWithIfStatement statementsOf chainIf chainNext =
     Some (IfStatement (Some (span 1 0 1 32)) (Identifier (Some (span 1 4 1 5)) ''a'')
       (BlockStatement None [chainNext])
       (Some (IfStatement (Some (span 1 15 1 32)) (Identifier (Some (span 1 19 1 20)) ''b'')
          (BlockStatement None [chainNext])
          (Some (BlockStatement None [chainNext])))))"
proof -
  have h: "isIfStatement chainIf"
    by (simp add: chainIf_def isIfStatement_def)
  show ?thesis
    using h mergeWithIfStatement_returns [OF h, of statementsOf chainNext] chainIf_merged
    by blast
qed

subsection \<open>Shadowing\<close>



subsection \<open>Computed member access\<close>

text \<open>
  Claim C3 (what the code does). The callback returns on every node reached through the
  \<open>property\<close> of a member expression or the \<open>key\<close> of an object property, whatever
  \<open>computed\<close> is. In \<open>computedProgram\<close> the walk visits the \<open>x\<close> of \<open>obj[x]\<close>, whose
  parent is a computed member expression, and the reference collection holds the \<open>x\<close> of
  \<open>foo(x)\<close> only: the computed occurrence is skipped like a property name.
\<close>

theorem computed_member_not_collected:
  "(\<forall>ident node ancestors l obj prop computed.
      enterIdentifier ident
        (node, ancestors @ [Ancestor (MemberExpression l obj prop computed) ''property'' None])
        = None) \<and>
   (\<forall>ident node ancestors l k v computed shorthand.
      enterIdentifier ident
        (node, ancestors @ [Ancestor (ObjectProperty l k v computed shorthand) ''key'' None])
        = None) \<and>
   (Identifier (Some (span 3 4 3 5)) ''x'',
      [Ancestor computedProgram ''body'' (Some 2),
       Ancestor (ExpressionStatement (Some (span 3 0 3 7)) computedMember) ''expression'' None,
       Ancestor computedMember ''property'' None]) \<in> set (traverse [] computedProgram) \<and>
   computeIdentifiersToReplace computedId computedProgram =
     [IdentifierToReplace (span 2 4 2 5) False None]"
proof -
  have "computeIdentifiersToReplace computedId computedProgram =
     [IdentifierToReplace (span 2 4 2 5) False None]"
    by (simp add: computedProgram_def computedMember_def computedId_def enter_defs eval_defs)
  moreover have "(Identifier (Some (span 3 4 3 5)) ''x'',
      [Ancestor computedProgram ''body'' (Some 2),
       Ancestor (ExpressionStatement (Some (span 3 0 3 7)) computedMember) ''expression'' None,
       Ancestor computedMember ''property'' None]) \<in> set (traverse [] computedProgram)"
    by (simp add: computedProgram_def computedMember_def computedId_def eval_defs)
  ultimately show ?thesis
    by (simp add: enterIdentifier_def lastOf_snoc isMemberExpression_def isObjectProperty_def
          split: option.splits)
qed

subsection \<open>The last match wins\<close>

text \<open>
  Claim C4. For an object pattern with a selectable initializer, the result of
  \<open>findInlinableCode\<close> is built (wrapped at top level) from the last property, in the order
  of the pattern, at which the callback reaches its assignment: the property contains the
  selection, is no rest element, is a selectable object property, its value decomposes
  and the initializer has a name. Every later property is one at which the callback
  returns early, and a rest element is never that property.
\<close>

theorem objectPattern_last_match_wins:
  assumes "node_loc init = Some initLoc"
  shows "findInlinableCode selection parent
           (Declaration (ObjectPattern (Some idLoc) properties) (Some init) isDecl) =
         wrapInTopLevelPattern
           (lastOf (List.map_filter (objectPatternCandidate selection parent init properties)
                      (enumerate 0 properties)))
           (Declaration (ObjectPattern (Some idLoc) properties) (Some init) isDecl) idLoc \<and>
         (\<forall>candidate.
            lastOf (List.map_filter (objectPatternCandidate selection parent init properties)
                      (enumerate 0 properties)) = Some candidate \<longrightarrow>
            (\<exists>index < length properties.
               objectPatternCandidate selection parent init properties
                 (index, properties ! index) = Some candidate \<and>
               \<not> isRestElement (properties ! index) \<and>
               isInsideNode selection (properties ! index) \<and>
               (\<forall>j. index < j \<and> j < length properties \<longrightarrow>
                  objectPatternCandidate selection parent init properties
                    (j, properties ! j) = None))) \<and>
         (\<forall>index property.
            isRestElement property \<longrightarrow>
            objectPatternCandidate selection parent init properties (index, property) = None)"
proof (intro conjI allI impI)
  show "findInlinableCode selection parent
           (Declaration (ObjectPattern (Some idLoc) properties) (Some init) isDecl) =
         wrapInTopLevelPattern
           (lastOf (List.map_filter (objectPatternCandidate selection parent init properties)
                      (enumerate 0 properties)))
           (Declaration (ObjectPattern (Some idLoc) properties) (Some init) isDecl) idLoc"
    by (rule findInlinableCode_objectPattern_last [OF assms])
next
  fix candidate
  assume "lastOf (List.map_filter (objectPatternCandidate selection parent init properties)
                      (enumerate 0 properties)) = Some candidate"
  from last_candidate_index [OF this] obtain index where
    index: "index < length properties"
      "objectPatternCandidate selection parent init properties (index, properties ! index) =
         Some candidate"
      "\<forall>j. index < j \<and> j < length properties \<longrightarrow>
         objectPatternCandidate selection parent init properties (j, properties ! j) = None"
    by blast
  from candidate_not_rest [OF index(2)] index
  show "\<exists>index < length properties.
               objectPatternCandidate selection parent init properties
                 (index, properties ! index) = Some candidate \<and>
               \<not> isRestElement (properties ! index) \<and>
               isInsideNode selection (properties ! index) \<and>
               (\<forall>j. index < j \<and> j < length properties \<longrightarrow>
                  objectPatternCandidate selection parent init properties
                    (j, properties ! j) = None)"
    by blast
next
  fix index :: nat and property :: ast
  assume "isRestElement property"
  then show "objectPatternCandidate selection parent init properties (index, property) = None"
    by (simp add: objectPatternCandidate_def)
qed

theorem objectPattern_last_match_wins_witness:
  "node_loc nameInit = Some (span 1 28 1 31) \<and>
   findInlinableCode (cursorAt 0 8) nameProgram
     (Declaration (ObjectPattern (Some (span 1 6 1 25)) nameProperties) (Some nameInit) True) =
   wrapInTopLevelPattern
     (lastOf (List.map_filter (objectPatternCandidate (cursorAt 0 8) nameProgram nameInit nameProperties)
                (enumerate 0 nameProperties)))
     (Declaration (ObjectPattern (Some (span 1 6 1 25)) nameProperties) (Some nameInit) True)
     (span 1 6 1 25) \<and>
   isRestElement nameRest \<and>
   objectPatternCandidate (cursorAt 0 8) nameProgram nameInit nameProperties (1, nameRest) = None \<and>
   findInlinableCode (cursorAt 0 8) nameProgram
     (Declaration (ObjectPattern (Some (span 1 6 1 25)) nameProperties) (Some nameInit) True) =
   Some (InlinableTopLevelPattern
     (InlinableObjectPattern (newInlinableIdentifier nameId nameProgram (span 1 8 1 12))
        ''obj'' nameProperty True None None) (span 1 6 1 25))"
proof -
  have h: "node_loc nameInit = Some (span 1 28 1 31)"
    by (simp add: nameInit_def)
  have r: "isRestElement nameRest"
    by (simp add: nameRest_def isRestElement_def)
  show ?thesis
    using h r objectPattern_last_match_wins [OF h] nameProgram_found by blast
qed

subsection \<open>Rest siblings\<close>

text \<open>
  Claim C10, as amended. For a property with a rest sibling whose value is no object
  pattern, \<open>shouldExtendSelectionToDeclaration\<close> is false, and \<open>codeToRemoveSelection\<close> is the
  cursor at (0, 0) when the child reports \<open>shouldExtendSelectionToDeclaration\<close>, as an
  identifier does; when the child does not, it is the child's \<open>codeToRemoveSelection\<close>.
\<close>

theorem rest_sibling_code_to_remove:
  assumes "propertyValue property = Some v" and "\<not> isObjectPattern v"
  shows "shouldExtendSelectionToDeclaration
           (InlinableObjectPattern child initName property True previous next) = False \<and>
         codeToRemoveSelection
           (InlinableObjectPattern child initName property True previous next) =
           (if shouldExtendSelectionToDeclaration child then cursorAt 0 0
            else codeToRemoveSelection child)"
  using assms by simp

theorem rest_sibling_code_to_remove_witness:
  "propertyValue nameProperty = Some nameId \<and> \<not> isObjectPattern nameId \<and>
   shouldExtendSelectionToDeclaration
     (InlinableObjectPattern (newInlinableIdentifier nameId nameProgram (span 1 8 1 12))
        ''obj'' nameProperty True None None) = False \<and>
   codeToRemoveSelection
     (InlinableObjectPattern (newInlinableIdentifier nameId nameProgram (span 1 8 1 12))
        ''obj'' nameProperty True None None) = cursorAt 0 0"
proof -
  have h1: "propertyValue nameProperty = Some nameId"
    by (simp add: nameProperty_def propertyValue_def)
  have h2: "\<not> isObjectPattern nameId"
    by (simp add: nameId_def isObjectPattern_def)
  show ?thesis
    using h1 h2 rest_sibling_code_to_remove [OF h1 h2]
    by (simp add: newInlinableIdentifier_def)
qed

text \<open>
  Claim C10 as stated fails: in \<open>restProgram\<close> the selected property \<open>a: [b, c]\<close> has a rest
  sibling and an array pattern as its value, and the range to remove is that of \<open>b\<close>.
\<close>

theorem rest_sibling_array_value_removes_element:
  "findInlinableCode (cursorAt 0 12) restProgram (Declaration restPattern (Some restInit) True) =
     Some (InlinableTopLevelPattern restWrapper (span 1 6 1 28)) \<and>
   propertyValue restProperty = Some restArray \<and> \<not> isObjectPattern restArray \<and>
   codeToRemoveSelection restWrapper = Selection (Position 0 12) (Position 0 13) \<and>
   codeToRemoveSelection restWrapper \<noteq> cursorAt 0 0"
proof -
  have "codeToRemoveSelection restWrapper = Selection (Position 0 12) (Position 0 13)"
    by (simp add: restWrapper_def newInlinableIdentifier_def restB_def selectionOf_def
          fromAST_def span_def)
  moreover have "propertyValue restProperty = Some restArray \<and> \<not> isObjectPattern restArray"
    by (simp add: restProperty_def propertyValue_def restArray_def isObjectPattern_def)
  ultimately show ?thesis
    using restProgram_found by (simp add: cursorAt_def)
qed

subsection \<open>Functions with several returns\<close>

text \<open>
  Claim C5. A function with more than one return statement of its own, or whose only
  return statement is not the last statement of its body, is rejected with
  \<open>CantInlineFunctionWithMultipleReturns\<close>, whatever its references are.
\<close>

theorem multiple_returns_rejected:
  assumes "length (returnStatementsOf f) > 1 \<or>
           (length (returnStatementsOf f) = 1 \<and> \<not> endsWithReturn f)"
  shows "inlineFunction (Some f) references exported inlinedCode =
           Inl CantInlineFunctionWithMultipleReturns"
  using assms by (auto simp: inlineFunction_def)

theorem multiple_returns_rejected_witness:
  "length (returnStatementsOf getFirstName) = 2 \<and>
   inlineFunction (Some getFirstName) [Reference (cursorAt 6 20) UsedAsValue] False (\<lambda>r. [])
     = Inl CantInlineFunctionWithMultipleReturns"
proof -
  have h: "length (returnStatementsOf getFirstName) = 2"
    by (simp add: returnStatementsOf_def functionBody_def getFirstName_def eval_defs
          isReturnStatement_def isFunctionNode_def)
  then have "length (returnStatementsOf getFirstName) > 1 \<or>
           (length (returnStatementsOf getFirstName) = 1 \<and> \<not> endsWithReturn getFirstName)"
    by simp
  from multiple_returns_rejected [OF this] h show ?thesis by simp
qed

end
